theory Spec2Isabelle
  imports Main
begin

section \<open>The parity check application (parity\_check\_app.py)\<close>

text \<open>
  The program builds a three-qubit circuit for a two-character input state, runs it on a
  simulator backend for a number of shots, and reads the parity off the first key of the
  returned counts. Exceptions are values: a function that can raise returns
  \<open>error + 'a\<close>, with \<open>Inl\<close> for the exception.
\<close>

subsection \<open>Errors\<close>

text \<open>
  \<open>IndexError\<close> is the only exception the Python of the repository raises itself (an
  index out of range on a string or a list). The other three are the typed failures of the
  specification (section 7); they are raised only by the definitions below that are
  modelled from the specification.
\<close>

datatype error =
    IndexError
  | InvalidTrialCountError
  | MalformedNetworkError
  | EmptyResultError

text \<open>
  Python's \<open>xs[i]\<close> for a non-negative literal index \<open>i\<close>: the element, or
  \<open>IndexError\<close> when \<open>i\<close> is not below the length.
\<close>

definition getitem :: "'a list \<Rightarrow> nat \<Rightarrow> error + 'a" where
  "getitem xs i = (if i < length xs then Inr (xs ! i) else Inl IndexError)"

subsection \<open>The circuit\<close>

text \<open>
  The instructions the builder appends: \<open>qc.x(q)\<close>, \<open>qc.barrier()\<close>,
  \<open>qc.cx(c, t)\<close> and \<open>qc.measure(q, c)\<close>. A circuit is its number of qubits, its
  number of classical bits and the instructions in the order they were appended.
\<close>

datatype instruction =
    XGate nat
  | Barrier
  | CXGate nat nat
  | Measure nat nat

record QuantumCircuit =
  num_qubits :: nat
  num_clbits :: nat
  data :: "instruction list"

definition new_circuit :: "nat \<Rightarrow> nat \<Rightarrow> QuantumCircuit" where
  "new_circuit n m = \<lparr>num_qubits = n, num_clbits = m, data = []\<rparr>"

definition append_instr :: "instruction \<Rightarrow> QuantumCircuit \<Rightarrow> QuantumCircuit" where
  "append_instr i qc = qc\<lparr>data := data qc @ [i]\<rparr>"

definition qc_x :: "nat \<Rightarrow> QuantumCircuit \<Rightarrow> QuantumCircuit" where
  "qc_x q = append_instr (XGate q)"

definition qc_barrier :: "QuantumCircuit \<Rightarrow> QuantumCircuit" where
  "qc_barrier = append_instr Barrier"

definition qc_cx :: "nat \<Rightarrow> nat \<Rightarrow> QuantumCircuit \<Rightarrow> QuantumCircuit" where
  "qc_cx c t = append_instr (CXGate c t)"

definition qc_measure :: "nat \<Rightarrow> nat \<Rightarrow> QuantumCircuit \<Rightarrow> QuantumCircuit" where
  "qc_measure q c = append_instr (Measure q c)"

text \<open>
  \<open>create_parity_check_circuit\<close> (lines 8 to 22). The two reads \<open>input_state[0]\<close> and
  \<open>input_state[1]\<close> happen in this order, each raising \<open>IndexError\<close> on a string that
  is too short; nothing else about the string is looked at.
\<close>

definition create_parity_check_circuit :: "string \<Rightarrow> error + QuantumCircuit" where
  "create_parity_check_circuit input_state =
     (let qc = new_circuit 3 1 in
      case getitem input_state 0 of
        Inl e \<Rightarrow> Inl e
      | Inr c0 \<Rightarrow>
          let qc = (if c0 = CHR ''1'' then qc_x 0 qc else qc) in
          case getitem input_state 1 of
            Inl e \<Rightarrow> Inl e
          | Inr c1 \<Rightarrow>
              let qc = (if c1 = CHR ''1'' then qc_x 1 qc else qc);
                  qc = qc_barrier qc;
                  qc = qc_cx 0 2 qc;
                  qc = qc_cx 1 2 qc;
                  qc = qc_barrier qc;
                  qc = qc_measure 2 0 qc
              in Inr qc)"

text \<open>
  The input states of the specification's data model: exactly two characters, each
  \<open>0\<close> or \<open>1\<close>. The sidebar of the application (lines 38 to 40) produces only these.
\<close>

definition valid_input :: "string \<Rightarrow> bool" where
  "valid_input s \<longleftrightarrow> length s = 2 \<and> list_all (\<lambda>c. c = CHR ''0'' \<or> c = CHR ''1'') s"

text \<open>
  The operations of the specification's network description are the instructions other than
  barriers: a barrier is a drawing and scheduling directive and acts on no cell.
  \<open>XGate q\<close> is the specification's \<open>Set(q, 1)\<close>, \<open>CXGate c t\<close> its
  \<open>ConditionalInvert(c, t)\<close>, \<open>Measure q c\<close> its \<open>Readout(q, slot c)\<close>.
\<close>

definition is_barrier :: "instruction \<Rightarrow> bool" where
  "is_barrier i = (case i of Barrier \<Rightarrow> True | _ \<Rightarrow> False)"

definition operations :: "QuantumCircuit \<Rightarrow> instruction list" where
  "operations qc = filter (\<lambda>i. \<not> is_barrier i) (data qc)"

text \<open>The character a position is treated as: anything but \<open>1\<close> counts as \<open>0\<close>.\<close>

definition as_bit :: "char \<Rightarrow> char" where
  "as_bit c = (if c = CHR ''1'' then CHR ''1'' else CHR ''0'')"

subsection \<open>Evaluation of a circuit on classical cell values\<close>

text \<open>
  Modelled from the spec: the meaning of the gates is in the external circuit library,
  which is not part of the repository's sources. Section 3 of the specification gives it
  on three storage cells and one readout slot: every cell and slot starts at 0; \<open>Set\<close>
  initialises a cell (the builder's \<open>x\<close> gate, which inverts the cell, so that from the
  initial 0 it sets the cell to 1); \<open>ConditionalInvert(c, t)\<close> flips cell \<open>t\<close> if cell
  \<open>c\<close> holds 1; \<open>Readout(q, slot)\<close> copies the value of cell \<open>q\<close> into the slot
  (the measurement model is noiseless). A barrier changes nothing.
\<close>

record machine =
  cells :: "bool list"
  slots :: "bool list"

definition initial :: "QuantumCircuit \<Rightarrow> machine" where
  "initial qc = \<lparr>cells = replicate (num_qubits qc) False,
                 slots = replicate (num_clbits qc) False\<rparr>"

fun apply_instr :: "instruction \<Rightarrow> machine \<Rightarrow> machine" where
  "apply_instr (XGate q) m = m\<lparr>cells := (cells m)[q := \<not> cells m ! q]\<rparr>"
| "apply_instr Barrier m = m"
| "apply_instr (CXGate c t) m =
     (if cells m ! c then m\<lparr>cells := (cells m)[t := \<not> cells m ! t]\<rparr> else m)"
| "apply_instr (Measure q c) m = m\<lparr>slots := (slots m)[c := cells m ! q]\<rparr>"

fun evaluate :: "instruction list \<Rightarrow> machine \<Rightarrow> machine" where
  "evaluate [] m = m"
| "evaluate (i # is) m = evaluate is (apply_instr i m)"

definition is_measure :: "instruction \<Rightarrow> bool" where
  "is_measure i = (case i of Measure q c \<Rightarrow> True | _ \<Rightarrow> False)"

text \<open>
  The value of the accumulator (cell 2) when the readout is about to happen: the cells
  after the instructions that precede the first \<open>Measure\<close>.
\<close>

definition accumulator_before_readout :: "QuantumCircuit \<Rightarrow> bool" where
  "accumulator_before_readout qc =
     cells (evaluate (takeWhile (\<lambda>i. \<not> is_measure i) (data qc)) (initial qc)) ! 2"

text \<open>
  Modelled from the spec: one repetition of section 4.2, the simulator not being among
  the repository's sources. The network is evaluated from fresh cells and the outcome is
  the key under which the repetition is counted: the readout slots as a string of \<open>0\<close>
  and \<open>1\<close>, the highest slot first. With one slot it is \<open>''0''\<close> or \<open>''1''\<close>.
\<close>

definition bit_char :: "bool \<Rightarrow> char" where
  "bit_char b = (if b then CHR ''1'' else CHR ''0'')"

definition trial :: "QuantumCircuit \<Rightarrow> string" where
  "trial qc = map bit_char (rev (slots (evaluate (data qc) (initial qc))))"

subsection \<open>The simulator\<close>

text \<open>
  A frequency table is a Python dictionary from readout key to count; its keys are kept in
  insertion order, which the classifier depends on, so it is an association list.
\<close>

type_synonym table = "(string \<times> nat) list"

text \<open>
  Modelled from the spec: the running tally of section 4.2, the simulator not being among
  the repository's sources. \<open>tally\<close> records one more occurrence of a key, as
  \<open>counts[k] = counts.get(k, 0) + 1\<close> does on a dictionary (a new key goes to the
  end); \<open>run_trials\<close> is the loop over the repetitions.
\<close>

fun tally :: "string \<Rightarrow> table \<Rightarrow> table" where
  "tally k [] = [(k, 1)]"
| "tally k ((k', n) # rest) =
     (if k = k' then (k', Suc n) # rest else (k', n) # tally k rest)"

fun run_trials :: "QuantumCircuit \<Rightarrow> nat \<Rightarrow> table \<Rightarrow> table" where
  "run_trials qc 0 counts = counts"
| "run_trials qc (Suc n) counts = run_trials qc n (tally (trial qc) counts)"

text \<open>
  Modelled from the spec: the structural invariant of section 3, which the simulator, not
  among the repository's sources, is to check on its argument. Three cells and one slot;
  up to two \<open>Set\<close> operations, on the input cells 0 and 1 (cell 2 always starts at 0),
  then \<open>ConditionalInvert(0, 2)\<close>, \<open>ConditionalInvert(1, 2)\<close> and the single
  \<open>Readout(2, slot 0)\<close>.
\<close>

definition is_input_set :: "instruction \<Rightarrow> bool" where
  "is_input_set i = (case i of XGate q \<Rightarrow> q < 2 | _ \<Rightarrow> False)"

definition well_formed :: "QuantumCircuit \<Rightarrow> bool" where
  "well_formed qc \<longleftrightarrow>
     num_qubits qc = 3 \<and> num_clbits qc = 1 \<and>
     (let ops = operations qc; k = length ops - 3 in
        3 \<le> length ops \<and> k \<le> 2 \<and>
        list_all is_input_set (take k ops) \<and>
        drop k ops = [CXGate 0 2, CXGate 1 2, Measure 2 0])"

text \<open>
  Modelled from the spec: the simulator backend (\<open>backend.run\<close> and \<open>get_counts\<close>,
  lines 67 to 71) is an external library and not part of the repository's sources. Section
  4.2 of the specification: a trial count that is not positive fails with
  \<open>InvalidTrialCountError\<close>, a network that breaks the invariant of section 3 fails
  with \<open>MalformedNetworkError\<close>; otherwise each of the \<open>trials\<close> repetitions evaluates
  the network from fresh cells and adds one occurrence of its readout value to the tally.
\<close>

definition simulate :: "QuantumCircuit \<Rightarrow> int \<Rightarrow> error + table" where
  "simulate qc trials =
     (if trials \<le> 0 then Inl InvalidTrialCountError
      else if \<not> well_formed qc then Inl MalformedNetworkError
      else Inr (run_trials qc (nat trials) []))"

definition counts_total :: "table \<Rightarrow> nat" where
  "counts_total counts = sum_list (map snd counts)"

subsection \<open>The parity determination\<close>

text \<open>
  Lines 73 and 74: \<open>parity_result_bit = list(counts.keys())[0]\<close>, the first key of the
  table in its iteration order (\<open>IndexError\<close> on an empty table), and
  \<open>parity = "Even" if parity_result_bit == "0" else "Odd"\<close>.
\<close>

definition parity_result_bit :: "table \<Rightarrow> error + string" where
  "parity_result_bit counts = getitem (map fst counts) 0"

definition parity_of_bit :: "string \<Rightarrow> string" where
  "parity_of_bit b = (if b = ''0'' then ''Even'' else ''Odd'')"

definition parity :: "table \<Rightarrow> error + string" where
  "parity counts =
     (case parity_result_bit counts of
        Inl e \<Rightarrow> Inl e
      | Inr b \<Rightarrow> Inr (parity_of_bit b))"

text \<open>
  The classifier as the specification words it (section 4.3), for comparison with
  \<open>parity_result_bit\<close>: on a non-empty table, the key with the strictly greatest
  count among \<open>''0''\<close> and \<open>''1''\<close>, a tie going to \<open>''0''\<close>.
\<close>

fun count_of :: "table \<Rightarrow> string \<Rightarrow> nat" where
  "count_of [] k = 0"
| "count_of ((k', n) # rest) k = (if k = k' then n else count_of rest k)"

definition dominant_spec :: "table \<Rightarrow> error + string" where
  "dominant_spec counts =
     (if counts = [] then Inl EmptyResultError
      else if count_of counts ''0'' < count_of counts ''1'' then Inr ''1''
      else Inr ''0'')"

text \<open>
  The main page (lines 45 and 67 to 74): build the circuit, run it, determine the parity.
  The application runs it with \<open>shots = 1024\<close>.
\<close>

definition shots :: int where
  "shots = 1024"

definition parity_check :: "string \<Rightarrow> int \<Rightarrow> error + string" where
  "parity_check input_state trials =
     (case create_parity_check_circuit input_state of
        Inl e \<Rightarrow> Inl e
      | Inr qc \<Rightarrow>
          (case simulate qc trials of
             Inl e \<Rightarrow> Inl e
           | Inr counts \<Rightarrow> parity counts))"

section \<open>Properties of the builder\<close>

lemma create_two_chars:
  "create_parity_check_circuit (c0 # c1 # rest) =
     Inr \<lparr>num_qubits = 3, num_clbits = 1,
          data = (if c0 = CHR ''1'' then [XGate 0] else []) @
                 (if c1 = CHR ''1'' then [XGate 1] else []) @
                 [Barrier, CXGate 0 2, CXGate 1 2, Barrier, Measure 2 0]\<rparr>"
  by (simp add: create_parity_check_circuit_def getitem_def new_circuit_def qc_x_def
      qc_barrier_def qc_cx_def qc_measure_def append_instr_def Let_def)

lemma create_short:
  "length s < 2 \<Longrightarrow> create_parity_check_circuit s = Inl IndexError"
  by (cases s; cases "tl s")
     (auto simp: create_parity_check_circuit_def getitem_def Let_def)

lemma long_string_shape:
  "2 \<le> length s \<Longrightarrow> \<exists>c0 c1 rest. s = c0 # c1 # rest"
  by (cases s; cases "tl s") auto

lemma create_long:
  assumes "2 \<le> length s"
  shows "create_parity_check_circuit s =
     Inr \<lparr>num_qubits = 3, num_clbits = 1,
          data = (if s ! 0 = CHR ''1'' then [XGate 0] else []) @
                 (if s ! 1 = CHR ''1'' then [XGate 1] else []) @
                 [Barrier, CXGate 0 2, CXGate 1 2, Barrier, Measure 2 0]\<rparr>"
proof -
  from assms obtain c0 c1 rest where s: "s = c0 # c1 # rest"
    using long_string_shape by blast
  show ?thesis unfolding s create_two_chars by simp
qed

lemma created_is_long:
  assumes "create_parity_check_circuit s = Inr qc"
  shows "2 \<le> length s"
proof -
  have "\<not> length s < 2"
    using assms create_short [of s] by auto
  then show ?thesis by simp
qed

lemma valid_input_cases:
  "valid_input s \<Longrightarrow> s = ''00'' \<or> s = ''01'' \<or> s = ''10'' \<or> s = ''11''"
  by (cases s; cases "tl s"; cases "tl (tl s)") (auto simp: valid_input_def)

lemma valid_input_long: "valid_input s \<Longrightarrow> 2 \<le> length s"
  by (simp add: valid_input_def)

text \<open>
  C3: for every valid two-bit input state the builder succeeds and the operations it
  emits are, in this order, \<open>Set\<close> on cell 0 only if the first character is \<open>1\<close>,
  \<open>Set\<close> on cell 1 only if the second character is \<open>1\<close>,
  \<open>ConditionalInvert(0, 2)\<close>, \<open>ConditionalInvert(1, 2)\<close> and
  \<open>Readout(2, slot 0)\<close>. The instruction list itself carries in addition one barrier
  before the two conditional inversions and one before the readout.
\<close>

theorem build_emits_in_order:
  "valid_input s \<Longrightarrow>
     \<exists>qc. create_parity_check_circuit s = Inr qc \<and>
       operations qc =
         (if s ! 0 = CHR ''1'' then [XGate 0] else []) @
         (if s ! 1 = CHR ''1'' then [XGate 1] else []) @
         [CXGate 0 2, CXGate 1 2, Measure 2 0] \<and>
       data qc =
         (if s ! 0 = CHR ''1'' then [XGate 0] else []) @
         (if s ! 1 = CHR ''1'' then [XGate 1] else []) @
         [Barrier, CXGate 0 2, CXGate 1 2, Barrier, Measure 2 0]"
  by (simp add: create_long valid_input_long operations_def is_barrier_def)

theorem build_emits_in_order_witness:
  "valid_input ''10'' \<and>
   (\<exists>qc. create_parity_check_circuit ''10'' = Inr qc \<and>
      operations qc = [XGate 0, CXGate 0 2, CXGate 1 2, Measure 2 0])"
  using build_emits_in_order [of "''10''"] by (auto simp: valid_input_def)

text \<open>
  C9: the builder looks at positions 0 and 1 only. Every string of length at least two
  builds a circuit, and it is the circuit of the two-character string in which each of
  the two positions is read as \<open>1\<close> if it is \<open>1\<close> and as \<open>0\<close> otherwise;
  whatever follows position 1 has no influence.
\<close>

theorem build_reads_two_positions:
  "2 \<le> length s \<Longrightarrow>
     (\<exists>qc. create_parity_check_circuit s = Inr qc) \<and>
     create_parity_check_circuit s =
       create_parity_check_circuit [as_bit (s ! 0), as_bit (s ! 1)]"
  by (simp add: create_long create_two_chars as_bit_def)

theorem build_reads_two_positions_witness:
  "2 \<le> length ''0100'' \<and> 2 \<le> length ''2x'' \<and>
   create_parity_check_circuit ''0100'' = create_parity_check_circuit ''01'' \<and>
   create_parity_check_circuit ''2x'' = create_parity_check_circuit ''00''"
  using build_reads_two_positions [of "''0100''"] build_reads_two_positions [of "''2x''"]
  by (simp add: as_bit_def)

text \<open>
  C2, as stated, asks that every string other than two binary characters be refused.
  The builder does not check its input: the string \<open>2x\<close> builds the circuit of
  \<open>00\<close>.
\<close>

theorem build_accepts_non_binary_counterexample:
  "create_parity_check_circuit ''2x'' =
     Inr \<lparr>num_qubits = 3, num_clbits = 1,
          data = [Barrier, CXGate 0 2, CXGate 1 2, Barrier, Measure 2 0]\<rparr>"
  by (simp add: create_two_chars)

text \<open>
  C2, amended: the builder fails exactly on the strings shorter than two characters, with
  the \<open>IndexError\<close> of the out-of-range read, and then returns no circuit; the string
  \<open>0\<close> of length one is such a string.
\<close>

theorem build_fails_iff_short:
  "(isl (create_parity_check_circuit s) \<longleftrightarrow> length s < 2) \<and>
   (length s < 2 \<longrightarrow> create_parity_check_circuit s = Inl IndexError)"
proof (cases "length s < 2")
  case True
  then show ?thesis by (simp add: create_short)
next
  case False
  then have "2 \<le> length s" by simp
  then show ?thesis by (simp add: create_long)
qed

theorem build_fails_iff_short_witness:
  "length ''0'' < 2 \<and> create_parity_check_circuit ''0'' = Inl IndexError \<and>
   isl (create_parity_check_circuit ''0'')"
  using build_fails_iff_short [of "''0''"] by simp

section \<open>The value the circuit computes\<close>

text \<open>
  C4: for every valid two-bit input state, evaluating the built circuit up to its readout
  leaves in the accumulator, cell 2, the exclusive or of the two input bits: it holds 1
  exactly when one of the two characters is \<open>1\<close> and the other is not.
\<close>

theorem accumulator_is_xor:
  "valid_input s \<Longrightarrow>
     \<exists>qc. create_parity_check_circuit s = Inr qc \<and>
       accumulator_before_readout qc = ((s ! 0 = CHR ''1'') \<noteq> (s ! 1 = CHR ''1''))"
  by (auto dest!: valid_input_cases
      simp: create_two_chars accumulator_before_readout_def initial_def is_measure_def
            numeral_3_eq_3 numeral_2_eq_2)

theorem accumulator_is_xor_witness:
  "valid_input ''01'' \<and>
   (\<exists>qc. create_parity_check_circuit ''01'' = Inr qc \<and> accumulator_before_readout qc)"
  using accumulator_is_xor [of "''01''"] by (simp add: valid_input_def)

lemma accumulator_four_inputs:
  "map_sum id accumulator_before_readout (create_parity_check_circuit ''00'') = Inr False"
  "map_sum id accumulator_before_readout (create_parity_check_circuit ''11'') = Inr False"
  "map_sum id accumulator_before_readout (create_parity_check_circuit ''01'') = Inr True"
  "map_sum id accumulator_before_readout (create_parity_check_circuit ''10'') = Inr True"
  by (simp_all add: create_two_chars accumulator_before_readout_def initial_def
      is_measure_def numeral_3_eq_3 numeral_2_eq_2)

section \<open>Properties of the simulator\<close>

lemma slots_apply_instr: "length (slots (apply_instr i m)) = length (slots m)"
  by (cases i) auto

lemma slots_evaluate: "length (slots (evaluate is m)) = length (slots m)"
  by (induction "is" arbitrary: m) (auto simp: slots_apply_instr)

lemma trial_one_slot:
  assumes "num_clbits qc = 1"
  shows "trial qc = ''0'' \<or> trial qc = ''1''"
proof -
  let ?sl = "slots (evaluate (data qc) (initial qc))"
  have "length ?sl = 1"
    using assms by (simp add: slots_evaluate initial_def)
  then obtain b where "?sl = [b]"
    by (cases ?sl) auto
  then show ?thesis
    by (cases b) (simp_all add: trial_def bit_char_def)
qed

lemma run_trials_same_key:
  "run_trials qc n [(trial qc, c)] = [(trial qc, c + n)]"
  by (induction n arbitrary: c) auto

lemma run_trials_empty:
  "0 < n \<Longrightarrow> run_trials qc n [] = [(trial qc, n)]"
  using run_trials_same_key [of qc "n - 1" 1] by (cases n) auto

lemma well_formed_10:
  "well_formed \<lparr>num_qubits = 3, num_clbits = 1,
      data = [XGate 0, Barrier, CXGate 0 2, CXGate 1 2, Barrier, Measure 2 0]\<rparr>"
  by (simp add: well_formed_def operations_def is_barrier_def is_input_set_def Let_def)

text \<open>
  C5: for every network that satisfies the structural invariant and every trial count
  \<open>N\<close> of at least one, the simulator returns a table with a single key, \<open>0\<close> or
  \<open>1\<close>, whose count is \<open>N\<close>; no other key is present, and the counts of the table
  add up to \<open>N\<close>.
\<close>

theorem simulate_single_key:
  "well_formed qc \<Longrightarrow> 1 \<le> N \<Longrightarrow>
     \<exists>k. (k = ''0'' \<or> k = ''1'') \<and>
         simulate qc N = Inr [(k, nat N)] \<and>
         int (counts_total [(k, nat N)]) = N"
proof -
  assume wf: "well_formed qc" and N: "1 \<le> N"
  from wf have "num_clbits qc = 1"
    by (simp add: well_formed_def)
  then have k: "trial qc = ''0'' \<or> trial qc = ''1''"
    by (rule trial_one_slot)
  from N have "0 < nat N" by simp
  then have "run_trials qc (nat N) [] = [(trial qc, nat N)]"
    by (rule run_trials_empty)
  with wf N have "simulate qc N = Inr [(trial qc, nat N)]"
    by (simp add: simulate_def)
  moreover from N have "int (counts_total [(trial qc, nat N)]) = N"
    by (simp add: counts_total_def)
  ultimately show ?thesis using k by blast
qed

theorem simulate_single_key_witness:
  "well_formed \<lparr>num_qubits = 3, num_clbits = 1,
      data = [XGate 0, Barrier, CXGate 0 2, CXGate 1 2, Barrier, Measure 2 0]\<rparr> \<and>
   (1::int) \<le> 1024 \<and>
   (\<exists>k. (k = ''0'' \<or> k = ''1'') \<and>
      simulate \<lparr>num_qubits = 3, num_clbits = 1,
        data = [XGate 0, Barrier, CXGate 0 2, CXGate 1 2, Barrier, Measure 2 0]\<rparr> 1024
        = Inr [(k, nat 1024)] \<and>
      int (counts_total [(k, nat 1024)]) = 1024)"
  using simulate_single_key [OF well_formed_10, of 1024] well_formed_10 by simp

text \<open>
  C7: for every network and every trial count that is zero or negative, the simulator
  fails with \<open>InvalidTrialCountError\<close>; the result is the error and no table.
\<close>

theorem simulate_rejects_nonpositive:
  "trials \<le> 0 \<Longrightarrow> simulate qc trials = Inl InvalidTrialCountError"
  by (simp add: simulate_def)

theorem simulate_rejects_nonpositive_witness:
  "(0::int) \<le> 0 \<and>
   simulate \<lparr>num_qubits = 3, num_clbits = 1,
      data = [Barrier, CXGate 0 2, CXGate 1 2, Barrier, Measure 2 0]\<rparr> 0
     = Inl InvalidTrialCountError"
  using simulate_rejects_nonpositive [of 0] by simp

section \<open>Properties of the parity determination\<close>

lemma parity_single_key:
  "parity [(k, n)] = Inr (if k = ''0'' then ''Even'' else ''Odd'')"
  by (simp add: parity_def parity_result_bit_def getitem_def parity_of_bit_def)

text \<open>
  C6, as stated, asks for the key with the strictly greatest count. The code takes the
  first key of the table: on the table with \<open>1\<close> seen once and then \<open>0\<close> seen 1023
  times it selects \<open>1\<close> and answers \<open>Odd\<close>, where the key with the greatest count is
  \<open>0\<close>.
\<close>

theorem parity_first_key_counterexample:
  "parity_result_bit [(''1'', 1), (''0'', 1023)] = Inr ''1'' \<and>
   parity [(''1'', 1), (''0'', 1023)] = Inr ''Odd'' \<and>
   dominant_spec [(''1'', 1), (''0'', 1023)] = Inr ''0'' \<and>
   parity_result_bit [(''1'', 1), (''0'', 1023)] \<noteq> dominant_spec [(''1'', 1), (''0'', 1023)]"
  by (simp add: parity_result_bit_def parity_def parity_of_bit_def getitem_def
      dominant_spec_def)

text \<open>
  C6, amended: for every non-empty frequency table the code selects the first key of the
  table in its iteration order, whatever the counts, and labels it \<open>Even\<close> if it is
  \<open>0\<close> and \<open>Odd\<close> otherwise. On a table with a single key, \<open>0\<close> or \<open>1\<close>, of
  positive count, this is the key with the greatest count.
\<close>

theorem parity_takes_first_key:
  "(counts = (k, n) # rest \<longrightarrow>
      parity_result_bit counts = Inr k \<and>
      parity counts = Inr (if k = ''0'' then ''Even'' else ''Odd'')) \<and>
   (counts = [(k, n)] \<and> (k = ''0'' \<or> k = ''1'') \<and> 0 < n \<longrightarrow>
      dominant_spec counts = parity_result_bit counts)"
  by (auto simp: parity_result_bit_def parity_def parity_of_bit_def getitem_def
      dominant_spec_def)

theorem parity_takes_first_key_witness:
  "parity_result_bit [(''1'', 1024)] = Inr ''1'' \<and>
   parity [(''1'', 1024)] = Inr ''Odd'' \<and>
   dominant_spec [(''1'', 1024)] = Inr ''1''"
  using parity_takes_first_key [of "[(''1'', 1024)]" "''1''" 1024 "[]"] by simp

text \<open>
  C10: whatever key is selected, the label is \<open>Even\<close> exactly when the key is the
  string \<open>0\<close> and \<open>Odd\<close> for every other key; \<open>1\<close> is treated like any other
  key that is not \<open>0\<close>.
\<close>

theorem only_zero_is_even:
  "parity_result_bit counts = Inr b \<Longrightarrow>
     (parity counts = Inr ''Even'' \<longleftrightarrow> b = ''0'') \<and>
     (parity counts = Inr ''Odd'' \<longleftrightarrow> b \<noteq> ''0'')"
  by (simp add: parity_def parity_of_bit_def)

theorem only_zero_is_even_witness:
  "parity_result_bit [(''2'', 7)] = Inr ''2'' \<and> parity [(''2'', 7)] = Inr ''Odd''"
proof -
  have b: "parity_result_bit [(''2'', 7)] = Inr ''2''"
    by (simp add: parity_result_bit_def getitem_def)
  from only_zero_is_even [OF b] b show ?thesis by simp
qed

section \<open>The three stages composed\<close>

lemma created_well_formed:
  assumes "create_parity_check_circuit s = Inr qc"
  shows "well_formed qc"
proof -
  have "2 \<le> length s"
    using assms by (rule created_is_long)
  from create_long [OF this] assms show ?thesis
    by (auto simp: well_formed_def operations_def is_barrier_def is_input_set_def Let_def)
qed

lemma created_trial:
  assumes "create_parity_check_circuit s = Inr qc"
  shows "trial qc = (if (s ! 0 = CHR ''1'') = (s ! 1 = CHR ''1'') then ''0'' else ''1'')"
proof -
  have "2 \<le> length s"
    using assms by (rule created_is_long)
  from create_long [OF this] assms show ?thesis
    by (auto simp: trial_def initial_def bit_char_def numeral_3_eq_3 numeral_2_eq_2)
qed

lemma simulate_created:
  assumes "create_parity_check_circuit s = Inr qc" and "1 \<le> N"
  shows "simulate qc N =
     Inr [(if (s ! 0 = CHR ''1'') = (s ! 1 = CHR ''1'') then ''0'' else ''1'', nat N)]"
proof -
  from assms(2) have "0 < nat N" by simp
  then have "run_trials qc (nat N) [] = [(trial qc, nat N)]"
    by (rule run_trials_empty)
  moreover have "well_formed qc"
    using assms(1) by (rule created_well_formed)
  moreover have "\<not> N \<le> 0"
    using assms(2) by simp
  ultimately have "simulate qc N = Inr [(trial qc, nat N)]"
    by (simp add: simulate_def)
  then show ?thesis
    by (simp only: created_trial [OF assms(1)])
qed

lemma parity_check_long:
  assumes "2 \<le> length s" and "1 \<le> N"
  shows "parity_check s N =
     Inr (if (s ! 0 = CHR ''1'') = (s ! 1 = CHR ''1'') then ''Even'' else ''Odd'')"
proof -
  from create_long [OF assms(1)] obtain qc where qc: "create_parity_check_circuit s = Inr qc"
    by blast
  have "parity_check s N =
      parity [(if (s ! 0 = CHR ''1'') = (s ! 1 = CHR ''1'') then ''0'' else ''1'', nat N)]"
    by (simp add: parity_check_def qc simulate_created [OF qc assms(2)])
  then show ?thesis
    by (simp add: parity_single_key)
qed

text \<open>
  C1: for every valid two-character input state and every trial count of at least one,
  building the circuit, simulating it and determining the parity gives the label
  \<open>Even\<close> if and only if the two characters are equal, and the label \<open>Odd\<close> if and
  only if they differ.
\<close>

theorem parity_check_correct:
  "valid_input s \<Longrightarrow> 1 \<le> N \<Longrightarrow>
     (parity_check s N = Inr ''Even'' \<longleftrightarrow> s ! 0 = s ! 1) \<and>
     (parity_check s N = Inr ''Odd'' \<longleftrightarrow> s ! 0 \<noteq> s ! 1)"
proof -
  assume v: "valid_input s" and N: "1 \<le> N"
  from v have len: "2 \<le> length s" by (rule valid_input_long)
  from v have bits: "(s ! 0 = s ! 1) \<longleftrightarrow> ((s ! 0 = CHR ''1'') = (s ! 1 = CHR ''1''))"
    by (auto dest!: valid_input_cases)
  show ?thesis
    unfolding parity_check_long [OF len N] bits by simp
qed

theorem parity_check_correct_witness:
  "valid_input ''01'' \<and> (1::int) \<le> 1024 \<and>
   parity_check ''01'' 1024 = Inr ''Odd'' \<and> parity_check ''01'' 1024 \<noteq> Inr ''Even''"
proof -
  have v: "valid_input ''01''" by (simp add: valid_input_def)
  have N: "(1::int) \<le> 1024" by simp
  from parity_check_correct [OF v N] v show ?thesis by simp
qed

text \<open>The four runs of the application, with its 1024 shots.\<close>

lemma app_runs:
  "parity_check ''00'' shots = Inr ''Even''"
  "parity_check ''11'' shots = Inr ''Even''"
  "parity_check ''01'' shots = Inr ''Odd''"
  "parity_check ''10'' shots = Inr ''Odd''"
  by (simp_all add: parity_check_long shots_def)

end
